theory Spec2Isabelle
  imports Complex_Main
begin

section \<open>Stock prediction service: the request handlers of main.py\<close>

text \<open>
  The module holds two globals, \<open>MODEL_PATH\<close> and \<open>model\<close> (the unpickled classifier, or
  \<open>None\<close> when loading failed), and five handlers that read them. The handlers are
  first written with exact real arithmetic for Python's floats, which says which values
  are computed and where they are placed; a second layer repeats the profit-margin
  derivation with the range of a double, where a result too large becomes Infinity.
  Rounding inside the range is not modelled. Python exceptions are values of
  the type \<open>exn\<close>; a handler that raises \<open>HTTPException\<close> returns it on the left of a sum.
\<close>

subsection \<open>Python values and exceptions\<close>

text \<open>
  \<open>PFloat\<close> is a finite float; \<open>PInf\<close>, \<open>PNegInf\<close> and \<open>PNaN\<close> are \<open>float('inf')\<close>,
  \<open>float('-inf')\<close> and \<open>float('nan')\<close>.
\<close>

datatype pyval =
    PNone
  | PBool bool
  | PInt int
  | PFloat real
  | PInf
  | PNegInf
  | PNaN
  | PStr string
  | PList "pyval list"
  | PDict "(string \<times> pyval) list"

type_synonym dict = "(string \<times> pyval) list"

text \<open>A one-row \<open>pd.DataFrame([{...}])\<close> is the list of its row dictionaries.\<close>

type_synonym DataFrame = "dict list"

datatype exn = ZeroDivisionError | IndexError | ValueError | KeyError | ArtifactError string

text \<open>
  The detail of an \<open>HTTPException\<close> is either a string literal or an f-string
  \<open>f"prefix{str(e)}"\<close>, kept as the prefix and the exception it was formatted from.
\<close>

datatype detail = Text string | Caused string exn

record HTTPException =
  status_code :: nat
  detail :: detail

definition bindE :: "exn + 'a \<Rightarrow> ('a \<Rightarrow> exn + 'b) \<Rightarrow> exn + 'b" where
  "bindE r f = (case r of Inl e \<Rightarrow> Inl e | Inr x \<Rightarrow> f x)"

text \<open>Float division \<open>x / y\<close> raises on a zero divisor.\<close>

definition py_truediv :: "real \<Rightarrow> real \<Rightarrow> exn + real" where
  "py_truediv x y = (if y = 0 then Inl ZeroDivisionError else Inr (x / y))"

text \<open>Indexing \<open>xs[i]\<close> with a non-negative constant index.\<close>

definition getidx :: "'a list \<Rightarrow> nat \<Rightarrow> exn + 'a" where
  "getidx xs i = (if i < length xs then Inr (xs ! i) else Inl IndexError)"

text \<open>\<open>max(xs)\<close> raises \<open>ValueError\<close> on an empty sequence.\<close>

fun py_max :: "real list \<Rightarrow> exn + real" where
  "py_max [] = Inl ValueError"
| "py_max (x # xs) = Inr (fold max xs x)"

text \<open>Dictionary subscription \<open>d[k]\<close>.\<close>

definition getitem :: "dict \<Rightarrow> string \<Rightarrow> exn + pyval" where
  "getitem d k = (case map_of d k of None \<Rightarrow> Inl KeyError | Some v \<Rightarrow> Inr v)"

text \<open>Truth value of an object, as tested by \<open>if\<close>.\<close>

fun truthy :: "pyval \<Rightarrow> bool" where
  "truthy PNone = False"
| "truthy (PBool b) = b"
| "truthy (PInt i) = (i \<noteq> 0)"
| "truthy (PFloat x) = (x \<noteq> 0)"
| "truthy PInf = True"
| "truthy PNegInf = True"
| "truthy PNaN = True"
| "truthy (PStr s) = (s \<noteq> [])"
| "truthy (PList xs) = (xs \<noteq> [])"
| "truthy (PDict d) = (d \<noteq> [])"

definition opt_float :: "real option \<Rightarrow> pyval" where
  "opt_float x = (case x of None \<Rightarrow> PNone | Some r \<Rightarrow> PFloat r)"

definition opt_str :: "string option \<Rightarrow> pyval" where
  "opt_str x = (case x of None \<Rightarrow> PNone | Some s \<Rightarrow> PStr s)"

subsection \<open>The artifact and the module globals\<close>

text \<open>
  The unpickled classifier is used through three things only: \<open>str(type(model))\<close>,
  \<open>model.predict(df)\<close> (an array of labels, one per row) and \<open>model.predict_proba(df)\<close>
  (an array of probability rows). Both calls may raise.
\<close>

record artifact =
  type_str :: string
  predict :: "DataFrame \<Rightarrow> exn + int list"
  predict_proba :: "DataFrame \<Rightarrow> exn + real list list"

record service =
  MODEL_PATH :: string
  model :: "artifact option"

subsection \<open>Request and response models\<close>

record ProductData =
  product_id :: "string option"
  cost_price :: real
  selling_price :: real
  profit_margin :: "real option"
  reorder_frequency :: int
  current_stock :: int
  minimum_stock_level :: int
  category :: string
  brand :: "string option"
  supplier :: "string option"

text \<open>The \<open>Field\<close> constraints of \<open>ProductData\<close>: \<open>gt=0\<close>, \<open>ge=1\<close>, \<open>ge=0\<close>.\<close>

definition ProductData_valid :: "ProductData \<Rightarrow> bool" where
  "ProductData_valid data =
     (0 < cost_price data \<and> 0 < selling_price data \<and> 1 \<le> reorder_frequency data \<and>
      0 \<le> current_stock data \<and> 0 \<le> minimum_stock_level data)"

record PredictionResponse =
  reorder_required :: bool
  confidence :: real
  probability_reorder :: real
  probability_no_reorder :: real
  model_version :: string

subsection \<open>read_root and health_check\<close>

definition read_root :: "service \<Rightarrow> pyval" where
  "read_root svc = PDict
     [(''service'', PStr ''Stock Prediction ML Service''),
      (''status'', PStr ''running''),
      (''model_loaded'', PBool (model svc \<noteq> None)),
      (''version'', PStr ''1.0.0'')]"

definition health_check :: "service \<Rightarrow> pyval" where
  "health_check svc = PDict
     [(''status'', PStr (if model svc \<noteq> None then ''healthy'' else ''degraded'')),
      (''model_loaded'', PBool (model svc \<noteq> None)),
      (''model_path'', PStr (MODEL_PATH svc))]"

subsection \<open>predict_reorder\<close>

text \<open>
  Lines 98 to 101, and 151 to 154 in the batch loop: the attribute \<open>profit_margin\<close> of
  the request object is assigned when it is \<open>None\<close>. The result is the request object
  after the statement, or the exception of the division.
\<close>

definition fill_profit_margin :: "ProductData \<Rightarrow> exn + ProductData" where
  "fill_profit_margin data =
     (if profit_margin data = None
      then bindE (py_truediv (selling_price data - cost_price data) (cost_price data))
             (\<lambda>q. Inr (data\<lparr>profit_margin := Some (q * 100)\<rparr>))
      else Inr data)"

text \<open>Lines 104 to 114, and 157 to 167: the one-row frame built from the request object.\<close>

definition input_data :: "ProductData \<Rightarrow> DataFrame" where
  "input_data data =
     [[(''cost_price'', PFloat (cost_price data)),
       (''selling_price'', PFloat (selling_price data)),
       (''Profit margin'', opt_float (profit_margin data)),
       (''reorder_frequency'', PInt (reorder_frequency data)),
       (''current_stock'', PInt (current_stock data)),
       (''minimum_stock_level'', PInt (minimum_stock_level data)),
       (''category'', PStr (category data)),
       (''brand'', opt_str (brand data)),
       (''supplier'', opt_str (supplier data))]]"

text \<open>
  Lines 117 to 126: label and probabilities of row 0, then the response, its arguments
  evaluated left to right.
\<close>

definition make_response :: "artifact \<Rightarrow> DataFrame \<Rightarrow> exn + PredictionResponse" where
  "make_response m df =
     bindE (predict m df) (\<lambda>labels.
     bindE (getidx labels 0) (\<lambda>prediction.
     bindE (predict_proba m df) (\<lambda>rows.
     bindE (getidx rows 0) (\<lambda>probabilities.
     bindE (py_max probabilities) (\<lambda>mx.
     bindE (getidx probabilities 1) (\<lambda>p1.
     bindE (getidx probabilities 0) (\<lambda>p0.
       Inr \<lparr>reorder_required = (prediction \<noteq> 0),
            confidence = mx,
            probability_reorder = p1,
            probability_no_reorder = p0,
            model_version = ''1.0.0''\<rparr>)))))))"

text \<open>
  The handler returns its reply together with the request object as the call leaves it
  (the handler assigns to \<open>data.profit_margin\<close>); the module globals are only read.
\<close>

definition predict_reorder ::
  "service \<Rightarrow> ProductData \<Rightarrow> (HTTPException + PredictionResponse) \<times> ProductData" where
  "predict_reorder svc data =
     (case model svc of
        None \<Rightarrow>
          (Inl \<lparr>status_code = 503,
                detail = Text ''Model not loaded. Please check server configuration.''\<rparr>, data)
      | Some m \<Rightarrow>
          (case fill_profit_margin data of
             Inl e \<Rightarrow>
               (Inl \<lparr>status_code = 500, detail = Caused ''Prediction error: '' e\<rparr>, data)
           | Inr data' \<Rightarrow>
               (case make_response m (input_data data') of
                  Inl e \<Rightarrow>
                    (Inl \<lparr>status_code = 500, detail = Caused ''Prediction error: '' e\<rparr>, data')
                | Inr r \<Rightarrow> (Inr r, data'))))"

subsection \<open>batch_predict\<close>

text \<open>
  Lines 169 to 178: the dictionary appended to \<open>results\<close>, from the product's identifier
  and its one-row frame.
\<close>

definition make_entry :: "artifact \<Rightarrow> string option \<Rightarrow> DataFrame \<Rightarrow> exn + dict" where
  "make_entry m pid df =
     bindE (predict m df) (\<lambda>labels.
     bindE (getidx labels 0) (\<lambda>prediction.
     bindE (predict_proba m df) (\<lambda>rows.
     bindE (getidx rows 0) (\<lambda>probabilities.
     bindE (py_max probabilities) (\<lambda>mx.
     bindE (getidx probabilities 1) (\<lambda>p1.
       Inr [(''product_id'', opt_str pid),
            (''reorder_required'', PBool (prediction \<noteq> 0)),
            (''confidence'', PFloat mx),
            (''probability_reorder'', PFloat p1)]))))))"

text \<open>
  One iteration of the loop, lines 150 to 178: the dictionary to append or the exception
  raised, and the product object as the iteration leaves it.
\<close>

definition loop_body :: "artifact \<Rightarrow> ProductData \<Rightarrow> (exn + dict) \<times> ProductData" where
  "loop_body m product =
     (case fill_profit_margin product of
        Inl e \<Rightarrow> (Inl e, product)
      | Inr product' \<Rightarrow>
          (make_entry m (product_id product') (input_data product'), product'))"

text \<open>
  The loop of line 149 over the remaining products, \<open>results\<close> being the list built so
  far. It returns the final \<open>results\<close> or the first exception, and the products as the
  loop leaves them.
\<close>

fun batch_loop ::
  "artifact \<Rightarrow> ProductData list \<Rightarrow> dict list \<Rightarrow> (exn + dict list) \<times> ProductData list" where
  "batch_loop m [] results = (Inr results, [])"
| "batch_loop m (product # rest) results =
     (case loop_body m product of
        (Inl e, product') \<Rightarrow> (Inl e, product' # rest)
      | (Inr r, product') \<Rightarrow>
          (case batch_loop m rest (results @ [r]) of
             (res, rest') \<Rightarrow> (res, product' # rest')))"

text \<open>Line 183: \<open>sum(1 for r in results if r['reorder_required'])\<close>.\<close>

fun reorder_count :: "dict list \<Rightarrow> exn + int" where
  "reorder_count [] = Inr 0"
| "reorder_count (r # rs) =
     bindE (getitem r ''reorder_required'') (\<lambda>v.
     bindE (reorder_count rs) (\<lambda>n.
       Inr ((if truthy v then 1 else 0) + n)))"

definition batch_predict ::
  "service \<Rightarrow> ProductData list \<Rightarrow> (HTTPException + pyval) \<times> ProductData list" where
  "batch_predict svc products =
     (case model svc of
        None \<Rightarrow> (Inl \<lparr>status_code = 503, detail = Text ''Model not loaded''\<rparr>, products)
      | Some m \<Rightarrow>
          (case batch_loop m products [] of
             (Inl e, products') \<Rightarrow>
               (Inl \<lparr>status_code = 500, detail = Caused ''Batch prediction error: '' e\<rparr>,
                products')
           | (Inr results, products') \<Rightarrow>
               (case reorder_count results of
                  Inl e \<Rightarrow>
                    (Inl \<lparr>status_code = 500, detail = Caused ''Batch prediction error: '' e\<rparr>,
                     products')
                | Inr n \<Rightarrow>
                    (Inr (PDict
                       [(''predictions'', PList (map PDict results)),
                        (''total_products'', PInt (int (length products))),
                        (''reorder_needed'', PInt n)]), products'))))"

subsection \<open>get_model_info\<close>

definition get_model_info :: "service \<Rightarrow> HTTPException + pyval" where
  "get_model_info svc =
     (case model svc of
        None \<Rightarrow> Inl \<lparr>status_code = 503, detail = Text ''Model not loaded''\<rparr>
      | Some m \<Rightarrow>
          Inr (PDict
            [(''model_type'', PStr (type_str m)),
             (''features'', PDict
                [(''numerical'', PList
                    [PStr ''cost_price'', PStr ''selling_price'', PStr ''Profit margin'',
                     PStr ''reorder_frequency'', PStr ''current_stock'',
                     PStr ''minimum_stock_level'']),
                 (''categorical'', PList [PStr ''category'', PStr ''brand'', PStr ''supplier''])]),
             (''performance'', PDict
                [(''accuracy'', PFloat (99 / 100)),
                 (''precision'', PFloat (98 / 100)),
                 (''recall'', PFloat (97 / 100)),
                 (''f1_score'', PFloat (97 / 100))])]))"

subsection \<open>The routes: schema validation in front of the handlers\<close>

text \<open>
  A body that violates a \<open>Field\<close> constraint of \<open>ProductData\<close> is rejected by the framework
  before the handler is called; otherwise the handler's exception or return value is the
  reply.
\<close>

datatype 'a reply = RequestValidationError | Raised HTTPException | Returned 'a

definition post_predict :: "service \<Rightarrow> ProductData \<Rightarrow> PredictionResponse reply" where
  "post_predict svc data =
     (if ProductData_valid data
      then (case fst (predict_reorder svc data) of Inl h \<Rightarrow> Raised h | Inr r \<Rightarrow> Returned r)
      else RequestValidationError)"

definition post_batch_predict :: "service \<Rightarrow> ProductData list \<Rightarrow> pyval reply" where
  "post_batch_predict svc products =
     (if list_all ProductData_valid products
      then (case fst (batch_predict svc products) of Inl h \<Rightarrow> Raised h | Inr r \<Rightarrow> Returned r)
      else RequestValidationError)"


subsection \<open>The derivation with the range of a double\<close>

text \<open>
  A Python float is an IEEE double. Arithmetic on doubles does not raise when a result is
  too large: a result whose magnitude reaches \<open>2^1024 - 2^970\<close> rounds to an infinity.
  Only division by zero raises. The fields of a request are finite floats.
\<close>

datatype double = Finite real | PosInf | NegInf | NaN

definition overflow_threshold :: real where
  "overflow_threshold = 2 ^ 1024 - 2 ^ 970"

definition to_double :: "real \<Rightarrow> double" where
  "to_double x =
     (if overflow_threshold \<le> x then PosInf
      else if x \<le> - overflow_threshold then NegInf
      else Finite x)"

text \<open>\<open>a - b\<close> on finite floats.\<close>

definition double_sub :: "real \<Rightarrow> real \<Rightarrow> double" where
  "double_sub a b = to_double (a - b)"

text \<open>\<open>x / y\<close> with a finite divisor: \<open>ZeroDivisionError\<close> when it is zero.\<close>

definition double_truediv :: "double \<Rightarrow> real \<Rightarrow> exn + double" where
  "double_truediv x y =
     (if y = 0 then Inl ZeroDivisionError
      else Inr (case x of
                  Finite a \<Rightarrow> to_double (a / y)
                | PosInf \<Rightarrow> (if 0 < y then PosInf else NegInf)
                | NegInf \<Rightarrow> (if 0 < y then NegInf else PosInf)
                | NaN \<Rightarrow> NaN))"

text \<open>\<open>x * c\<close> with a finite factor.\<close>

definition double_mul :: "double \<Rightarrow> real \<Rightarrow> double" where
  "double_mul x c =
     (case x of
        Finite a \<Rightarrow> to_double (a * c)
      | PosInf \<Rightarrow> (if 0 < c then PosInf else if c < 0 then NegInf else NaN)
      | NegInf \<Rightarrow> (if 0 < c then NegInf else if c < 0 then PosInf else NaN)
      | NaN \<Rightarrow> NaN)"

definition pyval_of_double :: "double \<Rightarrow> pyval" where
  "pyval_of_double d =
     (case d of Finite x \<Rightarrow> PFloat x | PosInf \<Rightarrow> PInf | NegInf \<Rightarrow> PNegInf | NaN \<Rightarrow> PNaN)"

text \<open>
  Lines 98 to 101 and 151 to 154: the value of \<open>profit_margin\<close> after the statement, the
  request's own when it was given.
\<close>

definition derive_profit_margin :: "ProductData \<Rightarrow> exn + double" where
  "derive_profit_margin data =
     (case profit_margin data of
        None \<Rightarrow>
          bindE (double_truediv (double_sub (selling_price data) (cost_price data))
                   (cost_price data))
            (\<lambda>q. Inr (double_mul q 100))
      | Some pm \<Rightarrow> Inr (Finite pm))"

text \<open>Lines 104 to 114 and 157 to 167, the profit margin being the double \<open>pm\<close>.\<close>

definition input_data_double :: "ProductData \<Rightarrow> double \<Rightarrow> DataFrame" where
  "input_data_double data pm =
     [[(''cost_price'', PFloat (cost_price data)),
       (''selling_price'', PFloat (selling_price data)),
       (''Profit margin'', pyval_of_double pm),
       (''reorder_frequency'', PInt (reorder_frequency data)),
       (''current_stock'', PInt (current_stock data)),
       (''minimum_stock_level'', PInt (minimum_stock_level data)),
       (''category'', PStr (category data)),
       (''brand'', opt_str (brand data)),
       (''supplier'', opt_str (supplier data))]]"

text \<open>The reply of \<open>predict_reorder\<close>, lines 90 to 132.\<close>

definition predict_reorder_double ::
  "service \<Rightarrow> ProductData \<Rightarrow> HTTPException + PredictionResponse" where
  "predict_reorder_double svc data =
     (case model svc of
        None \<Rightarrow>
          Inl \<lparr>status_code = 503,
               detail = Text ''Model not loaded. Please check server configuration.''\<rparr>
      | Some m \<Rightarrow>
          (case bindE (derive_profit_margin data)
                  (\<lambda>pm. make_response m (input_data_double data pm)) of
             Inl e \<Rightarrow> Inl \<lparr>status_code = 500, detail = Caused ''Prediction error: '' e\<rparr>
           | Inr r \<Rightarrow> Inr r))"

text \<open>One iteration of the batch loop, lines 150 to 178, and the loop of line 149.\<close>

definition loop_body_double :: "artifact \<Rightarrow> ProductData \<Rightarrow> exn + dict" where
  "loop_body_double m product =
     bindE (derive_profit_margin product)
       (\<lambda>pm. make_entry m (product_id product) (input_data_double product pm))"





subsection \<open>Sample artifact and requests\<close>

definition sample_artifact :: artifact where
  "sample_artifact =
     \<lparr>type_str = ''<class 'sklearn.pipeline.Pipeline'>'',
      predict = (\<lambda>df. Inr (map (\<lambda>row. 1) df)),
      predict_proba = (\<lambda>df. Inr (map (\<lambda>row. [1 / 5, 4 / 5]) df))\<rparr>"

definition sample_service :: service where
  "sample_service = \<lparr>MODEL_PATH = ''stock_reorder_model.pkl'', model = Some sample_artifact\<rparr>"

definition degraded_service :: service where
  "degraded_service = \<lparr>MODEL_PATH = ''stock_reorder_model.pkl'', model = None\<rparr>"

definition sample_product :: ProductData where
  "sample_product =
     \<lparr>product_id = Some ''P-1'', cost_price = 10, selling_price = 15, profit_margin = None,
      reorder_frequency = 30, current_stock = 4, minimum_stock_level = 6,
      category = ''Tools'', brand = Some ''Generic'', supplier = Some ''Default''\<rparr>"

definition tiny_cost_product :: ProductData where
  "tiny_cost_product =
     \<lparr>product_id = None, cost_price = 1 / 1000000000, selling_price = 15,
      profit_margin = None, reorder_frequency = 30, current_stock = 4,
      minimum_stock_level = 6, category = ''Tools'', brand = Some ''Generic'',
      supplier = Some ''Default''\<rparr>"


definition stocked_product :: ProductData where
  "stocked_product =
     \<lparr>product_id = Some ''P-2'', cost_price = 4, selling_price = 5, profit_margin = Some 25,
      reorder_frequency = 14, current_stock = 50, minimum_stock_level = 6,
      category = ''Paint'', brand = None, supplier = Some ''Default''\<rparr>"

text \<open>An artifact that asks for a reorder when the stock is below its minimum.\<close>

definition below_minimum :: "dict \<Rightarrow> bool" where
  "below_minimum row =
     (case (map_of row ''current_stock'', map_of row ''minimum_stock_level'') of
        (Some (PInt c), Some (PInt l)) \<Rightarrow> c < l
      | _ \<Rightarrow> False)"

definition stock_rule_artifact :: artifact where
  "stock_rule_artifact =
     \<lparr>type_str = ''<class 'sklearn.pipeline.Pipeline'>'',
      predict = (\<lambda>df. Inr (map (\<lambda>row. if below_minimum row then 1 else 0) df)),
      predict_proba =
        (\<lambda>df. Inr (map (\<lambda>row. if below_minimum row then [3 / 10, 7 / 10]
                                else [9 / 10, 1 / 10]) df))\<rparr>"

definition stock_rule_service :: service where
  "stock_rule_service =
     \<lparr>MODEL_PATH = ''stock_reorder_model.pkl'', model = Some stock_rule_artifact\<rparr>"

section \<open>Properties\<close>

lemma bindE_simps [simp]:
  "bindE (Inl e) f = Inl e"
  "bindE (Inr x) f = f x"
  by (simp_all add: bindE_def)

subsection \<open>Profit margin and the feature row\<close>

lemma fill_profit_margin_fields:
  assumes "fill_profit_margin data = Inr data'"
  shows "product_id data' = product_id data" "cost_price data' = cost_price data"
    "selling_price data' = selling_price data"
    "reorder_frequency data' = reorder_frequency data"
    "current_stock data' = current_stock data"
    "minimum_stock_level data' = minimum_stock_level data"
    "category data' = category data" "brand data' = brand data"
    "supplier data' = supplier data"
    "profit_margin data \<noteq> None \<Longrightarrow> data' = data"
  using assms
  by (auto simp: fill_profit_margin_def py_truediv_def split: if_splits)



text \<open>
  C2. The frame built for a product has one row of nine columns in the order cost_price,
  selling_price, "Profit margin", reorder_frequency, current_stock, minimum_stock_level,
  category, brand, supplier. Every column holds the request's own field value, the
  categorical ones as the strings received; "Profit margin" holds profit_margin, which is
  the request's value whenever one was given. Both handlers hand this frame to the artifact.
\<close>

theorem feature_row_contract:
  "(fill_profit_margin data = Inr data' \<longrightarrow>
      input_data data' =
        [[(''cost_price'', PFloat (cost_price data)),
          (''selling_price'', PFloat (selling_price data)),
          (''Profit margin'', opt_float (profit_margin data')),
          (''reorder_frequency'', PInt (reorder_frequency data)),
          (''current_stock'', PInt (current_stock data)),
          (''minimum_stock_level'', PInt (minimum_stock_level data)),
          (''category'', PStr (category data)),
          (''brand'', opt_str (brand data)),
          (''supplier'', opt_str (supplier data))]] \<and>
      (profit_margin data \<noteq> None \<longrightarrow> profit_margin data' = profit_margin data) \<and>
      (model svc = Some m \<longrightarrow>
         fst (predict_reorder svc data) =
           (case make_response m (input_data data') of
              Inl e \<Rightarrow> Inl \<lparr>status_code = 500, detail = Caused ''Prediction error: '' e\<rparr>
            | Inr r \<Rightarrow> Inr r)) \<and>
      fst (loop_body m data) = make_entry m (product_id data) (input_data data')) \<and>
   map (map fst) (input_data data) =
     [[''cost_price'', ''selling_price'', ''Profit margin'', ''reorder_frequency'',
       ''current_stock'', ''minimum_stock_level'', ''category'', ''brand'', ''supplier'']]"
proof -
  have names: "map (map fst) (input_data data) =
     [[''cost_price'', ''selling_price'', ''Profit margin'', ''reorder_frequency'',
       ''current_stock'', ''minimum_stock_level'', ''category'', ''brand'', ''supplier'']]"
    by (simp add: input_data_def)
  {
    assume fill: "fill_profit_margin data = Inr data'"
    have row: "input_data data' =
        [[(''cost_price'', PFloat (cost_price data)),
          (''selling_price'', PFloat (selling_price data)),
          (''Profit margin'', opt_float (profit_margin data')),
          (''reorder_frequency'', PInt (reorder_frequency data)),
          (''current_stock'', PInt (current_stock data)),
          (''minimum_stock_level'', PInt (minimum_stock_level data)),
          (''category'', PStr (category data)),
          (''brand'', opt_str (brand data)),
          (''supplier'', opt_str (supplier data))]]"
      by (simp add: input_data_def fill_profit_margin_fields [OF fill])
    have keep: "profit_margin data \<noteq> None \<longrightarrow> profit_margin data' = profit_margin data"
      using fill_profit_margin_fields(10) [OF fill] by simp
    have single: "model svc = Some m \<longrightarrow>
         fst (predict_reorder svc data) =
           (case make_response m (input_data data') of
              Inl e \<Rightarrow> Inl \<lparr>status_code = 500, detail = Caused ''Prediction error: '' e\<rparr>
            | Inr r \<Rightarrow> Inr r)"
      using fill by (simp add: predict_reorder_def split: sum.splits)
    have batch: "fst (loop_body m data) = make_entry m (product_id data) (input_data data')"
      using fill by (simp add: loop_body_def fill_profit_margin_fields(1) [OF fill])
    note row keep single batch
  }
  with names show ?thesis by blast
qed

theorem feature_row_contract_witness:
  "fill_profit_margin (sample_product\<lparr>profit_margin := Some 42\<rparr>) =
     Inr (sample_product\<lparr>profit_margin := Some 42\<rparr>) \<and>
   input_data (sample_product\<lparr>profit_margin := Some 42\<rparr>) =
     [[(''cost_price'', PFloat 10), (''selling_price'', PFloat 15),
       (''Profit margin'', PFloat 42), (''reorder_frequency'', PInt 30),
       (''current_stock'', PInt 4), (''minimum_stock_level'', PInt 6),
       (''category'', PStr ''Tools''), (''brand'', PStr ''Generic''),
       (''supplier'', PStr ''Default'')]]"
proof -
  let ?d = "sample_product\<lparr>profit_margin := Some 42\<rparr>"
  have h: "fill_profit_margin ?d = Inr ?d"
    by (simp add: fill_profit_margin_def)
  have "input_data ?d =
        [[(''cost_price'', PFloat (cost_price ?d)),
          (''selling_price'', PFloat (selling_price ?d)),
          (''Profit margin'', opt_float (profit_margin ?d)),
          (''reorder_frequency'', PInt (reorder_frequency ?d)),
          (''current_stock'', PInt (current_stock ?d)),
          (''minimum_stock_level'', PInt (minimum_stock_level ?d)),
          (''category'', PStr (category ?d)),
          (''brand'', opt_str (brand ?d)),
          (''supplier'', opt_str (supplier ?d))]]"
    using feature_row_contract [of ?d ?d sample_service sample_artifact] h by blast
  then show ?thesis
    using h by (simp add: sample_product_def opt_float_def opt_str_def)
qed






lemma input_data_double_Finite:
  "input_data_double data (Finite x) = input_data (data\<lparr>profit_margin := Some x\<rparr>)"
  by (simp add: input_data_double_def input_data_def pyval_of_double_def opt_float_def)

lemma input_data_double_given:
  "profit_margin data = Some pm \<Longrightarrow> input_data_double data (Finite pm) = input_data data"
  by (simp add: input_data_double_def input_data_def pyval_of_double_def opt_float_def)

lemma double_layer_agrees:
  assumes "derive_profit_margin data =
      Inr (case profit_margin data of
             Some pm \<Rightarrow> Finite pm
           | None \<Rightarrow> Finite ((selling_price data - cost_price data) / cost_price data * 100))"
    and "cost_price data \<noteq> 0"
  shows "predict_reorder_double svc data = fst (predict_reorder svc data)"
    and "loop_body_double m data = fst (loop_body m data)"
proof -
  show "predict_reorder_double svc data = fst (predict_reorder svc data)"
  proof (cases "profit_margin data")
    case None
    with assms show ?thesis
      by (simp add: predict_reorder_double_def predict_reorder_def fill_profit_margin_def
          py_truediv_def input_data_double_Finite split: option.splits sum.splits)
  next
    case (Some pm)
    with assms show ?thesis
      by (simp add: predict_reorder_double_def predict_reorder_def fill_profit_margin_def
          input_data_double_given split: option.splits sum.splits)
  qed
  show "loop_body_double m data = fst (loop_body m data)"
  proof (cases "profit_margin data")
    case None
    with assms show ?thesis
      by (simp add: loop_body_double_def loop_body_def fill_profit_margin_def
          py_truediv_def input_data_double_Finite)
  next
    case (Some pm)
    with assms show ?thesis
      by (simp add: loop_body_double_def loop_body_def fill_profit_margin_def
          input_data_double_given)
  qed
qed




subsection \<open>The single prediction\<close>

text \<open>
  C5. When the artifact answers with a label and a probability row [p0, p1] summing to 1,
  the reply of predict_reorder has probability_no_reorder = p0, probability_reorder = p1,
  their sum within 1e-6 of 1, confidence equal to the larger of the two, and
  reorder_required equal to the truth value of the label.
\<close>

theorem predict_response_shape:
  assumes "model svc = Some m"
    and "fill_profit_margin data = Inr data'"
    and "predict m (input_data data') = Inr (label # labels)"
    and "predict_proba m (input_data data') = Inr ([p0, p1] # rows)"
    and "p0 + p1 = 1"
  shows "\<exists>r. fst (predict_reorder svc data) = Inr r \<and>
           probability_no_reorder r = p0 \<and> probability_reorder r = p1 \<and>
           \<bar>probability_reorder r + probability_no_reorder r - 1\<bar> \<le> 1 / 1000000 \<and>
           confidence r = max (probability_reorder r) (probability_no_reorder r) \<and>
           reorder_required r = (label \<noteq> 0) \<and> model_version r = ''1.0.0''"
proof -
  have resp: "make_response m (input_data data') =
      Inr \<lparr>reorder_required = (label \<noteq> 0), confidence = max p1 p0,
           probability_reorder = p1, probability_no_reorder = p0,
           model_version = ''1.0.0''\<rparr>"
    using assms(3,4) by (simp add: make_response_def getidx_def max.commute)
  have "fst (predict_reorder svc data) =
      Inr \<lparr>reorder_required = (label \<noteq> 0), confidence = max p1 p0,
           probability_reorder = p1, probability_no_reorder = p0,
           model_version = ''1.0.0''\<rparr>"
    using assms(1,2) resp by (simp add: predict_reorder_def)
  moreover have "\<bar>p1 + p0 - 1\<bar> \<le> 1 / 1000000"
    using assms(5) by simp
  ultimately show ?thesis by simp
qed

theorem predict_response_shape_witness:
  "\<exists>r. fst (predict_reorder sample_service sample_product) = Inr r \<and>
        probability_no_reorder r = 1 / 5 \<and> probability_reorder r = 4 / 5 \<and>
        confidence r = 4 / 5 \<and> reorder_required r"
proof -
  let ?d = "sample_product\<lparr>profit_margin := Some 50\<rparr>"
  have h1: "model sample_service = Some sample_artifact"
    by (simp add: sample_service_def)
  have h2: "fill_profit_margin sample_product = Inr ?d"
    by (simp add: fill_profit_margin_def py_truediv_def sample_product_def)
  have h3: "predict sample_artifact (input_data ?d) = Inr ((1::int) # [])"
    by (simp add: sample_artifact_def input_data_def)
  have h4: "predict_proba sample_artifact (input_data ?d) = Inr ([1 / 5, 4 / 5] # [])"
    by (simp add: sample_artifact_def input_data_def)
  have h5: "(1 / 5 :: real) + 4 / 5 = 1" by simp
  from predict_response_shape [OF h1 h2 h3 h4 h5] show ?thesis
    by auto
qed

text \<open>
  C8. predict_reorder reads the module globals and writes only the profit_margin of its
  request object. Calling it again, even on the request object the first call left behind,
  gives the same reply and leaves the object as it was.
\<close>

theorem predict_repeatable:
  "predict_reorder svc (snd (predict_reorder svc data)) = predict_reorder svc data"
proof (cases "model svc")
  case None
  then show ?thesis by (simp add: predict_reorder_def)
next
  case (Some m)
  show ?thesis
  proof (cases "fill_profit_margin data")
    case (Inl e)
    with Some show ?thesis by (simp add: predict_reorder_def)
  next
    case (Inr d')
    then have "fill_profit_margin d' = Inr d'"
      by (auto simp: fill_profit_margin_def py_truediv_def split: if_splits)
    with Some Inr show ?thesis
      by (simp add: predict_reorder_def split: sum.splits)
  qed
qed

subsection \<open>The batch loop\<close>

lemma make_entry_shape:
  assumes "make_entry m pid df = Inr r"
  shows "\<exists>b c p. r = [(''product_id'', opt_str pid), (''reorder_required'', PBool b),
                       (''confidence'', PFloat c), (''probability_reorder'', PFloat p)]"
  using assms
  by (auto simp: make_entry_def bindE_def split: sum.splits)

lemma loop_body_shape:
  assumes "fst (loop_body m product) = Inr r"
  shows "\<exists>b c p. r = [(''product_id'', opt_str (product_id product)),
                       (''reorder_required'', PBool b),
                       (''confidence'', PFloat c), (''probability_reorder'', PFloat p)]"
proof (cases "fill_profit_margin product")
  case (Inl e)
  with assms show ?thesis by (simp add: loop_body_def)
next
  case (Inr product')
  then have pid: "product_id product' = product_id product"
    by (auto simp: fill_profit_margin_def py_truediv_def split: if_splits)
  from Inr assms have "make_entry m (product_id product') (input_data product') = Inr r"
    by (simp add: loop_body_def)
  from make_entry_shape [OF this] pid show ?thesis by simp
qed

lemma batch_loop_Cons_fst:
  "fst (batch_loop m (a # ps) rs) =
     (case fst (loop_body m a) of
        Inl e \<Rightarrow> Inl e
      | Inr r \<Rightarrow> fst (batch_loop m ps (rs @ [r])))"
  by (simp split: prod.splits sum.splits)

lemma batch_loop_Inr:
  "fst (batch_loop m ps rs) = Inr out \<Longrightarrow>
   \<exists>es. out = rs @ es \<and> map (\<lambda>p. fst (loop_body m p)) ps = map Inr es"
proof (induction ps arbitrary: rs)
  case Nil
  then show ?case by simp
next
  case (Cons a ps)
  from Cons.prems obtain r where r: "fst (loop_body m a) = Inr r"
    and rest: "fst (batch_loop m ps (rs @ [r])) = Inr out"
    by (auto simp: batch_loop_Cons_fst simp del: batch_loop.simps split: sum.splits)
  from Cons.IH [OF rest] obtain es where "out = (rs @ [r]) @ es"
    and "map (\<lambda>p. fst (loop_body m p)) ps = map Inr es"
    by blast
  with r have "out = rs @ (r # es) \<and>
      map (\<lambda>p. fst (loop_body m p)) (a # ps) = map Inr (r # es)"
    by simp
  then show ?case by blast
qed

lemma batch_loop_Inl:
  "fst (batch_loop m ps rs) = Inl e \<Longrightarrow>
   \<exists>good q rest. ps = good @ q # rest \<and>
     (\<forall>g\<in>set good. \<exists>r. fst (loop_body m g) = Inr r) \<and> fst (loop_body m q) = Inl e"
proof (induction ps arbitrary: rs)
  case Nil
  then show ?case by simp
next
  case (Cons a ps)
  show ?case
  proof (cases "fst (loop_body m a)")
    case (Inl e')
    with Cons.prems have "e' = e" by (simp add: batch_loop_Cons_fst del: batch_loop.simps)
    with Inl have "a # ps = [] @ a # ps \<and>
        (\<forall>g\<in>set []. \<exists>r. fst (loop_body m g) = Inr r) \<and> fst (loop_body m a) = Inl e"
      by simp
    then show ?thesis by blast
  next
    case (Inr r)
    with Cons.prems have "fst (batch_loop m ps (rs @ [r])) = Inl e"
      by (simp add: batch_loop_Cons_fst del: batch_loop.simps)
    from Cons.IH [OF this] obtain good q rest where "ps = good @ q # rest"
      and "\<forall>g\<in>set good. \<exists>r. fst (loop_body m g) = Inr r"
      and "fst (loop_body m q) = Inl e"
      by blast
    with Inr have "a # ps = (a # good) @ q # rest \<and>
        (\<forall>g\<in>set (a # good). \<exists>r. fst (loop_body m g) = Inr r) \<and>
        fst (loop_body m q) = Inl e"
      by simp
    then show ?thesis by blast
  qed
qed

lemma reorder_count_entries:
  "\<forall>r\<in>set rs. \<exists>b. getitem r ''reorder_required'' = Inr (PBool b) \<Longrightarrow>
   reorder_count rs =
     Inr (int (length (filter (\<lambda>r. getitem r ''reorder_required'' = Inr (PBool True)) rs)))"
  by (induction rs) auto

lemma batch_predict_fst:
  "model svc = Some m \<Longrightarrow>
   fst (batch_predict svc products) =
     (case fst (batch_loop m products []) of
        Inl e \<Rightarrow> Inl \<lparr>status_code = 500, detail = Caused ''Batch prediction error: '' e\<rparr>
      | Inr results \<Rightarrow>
          (case reorder_count results of
             Inl e \<Rightarrow>
               Inl \<lparr>status_code = 500, detail = Caused ''Batch prediction error: '' e\<rparr>
           | Inr n \<Rightarrow>
               Inr (PDict
                 [(''predictions'', PList (map PDict results)),
                  (''total_products'', PInt (int (length products))),
                  (''reorder_needed'', PInt n)])))"
  by (simp add: batch_predict_def split: prod.splits sum.splits)

text \<open>
  C4. With an artifact loaded, if the loop body fails for any product of a batch, the
  reply of batch_predict is one HTTPException with status 500, formatted from the
  exception of the first failing product; being an exception, it carries no predictions.
\<close>

theorem batch_aborts_on_failure:
  assumes "model svc = Some m" and "p \<in> set products" and "fst (loop_body m p) = Inl e0"
  shows "\<exists>e good q rest.
           fst (batch_predict svc products) =
             Inl \<lparr>status_code = 500, detail = Caused ''Batch prediction error: '' e\<rparr> \<and>
           products = good @ q # rest \<and>
           (\<forall>g\<in>set good. \<exists>r. fst (loop_body m g) = Inr r) \<and>
           fst (loop_body m q) = Inl e"
proof (cases "fst (batch_loop m products [])")
  case (Inl e)
  then have reply: "fst (batch_predict svc products) =
      Inl \<lparr>status_code = 500, detail = Caused ''Batch prediction error: '' e\<rparr>"
    using assms(1) by (simp add: batch_predict_fst)
  from batch_loop_Inl [OF Inl] reply show ?thesis by blast
next
  case (Inr out)
  from batch_loop_Inr [OF Inr] obtain es
    where "map (\<lambda>p. fst (loop_body m p)) products = map Inr es"
    by blast
  then have "fst (loop_body m p) \<in> set (map Inr es)"
    using assms(2) by (metis image_eqI set_map)
  with assms(3) show ?thesis by auto
qed

theorem batch_aborts_on_failure_witness:
  "\<exists>e. fst (batch_predict sample_service
          [sample_product, sample_product\<lparr>cost_price := 0\<rparr>, tiny_cost_product]) =
        Inl \<lparr>status_code = 500, detail = Caused ''Batch prediction error: '' e\<rparr>"
proof -
  let ?z = "sample_product\<lparr>cost_price := 0\<rparr>"
  have h1: "model sample_service = Some sample_artifact"
    by (simp add: sample_service_def)
  have h2: "?z \<in> set [sample_product, ?z, tiny_cost_product]" by simp
  have h3: "fst (loop_body sample_artifact ?z) = Inl ZeroDivisionError"
    by (simp add: loop_body_def fill_profit_margin_def py_truediv_def sample_product_def)
  from batch_aborts_on_failure [OF h1 h2 h3] show ?thesis by blast
qed

lemma py_max_Max:
  assumes "probabilities \<noteq> []"
  shows "py_max probabilities = Inr (Max (set probabilities))"
proof (cases probabilities)
  case Nil
  with assms show ?thesis by simp
next
  case (Cons x xs)
  then show ?thesis using Max.set_eq_fold [of x xs] by simp
qed

lemma make_entry_values:
  assumes "make_entry m pid df = Inr r"
  shows "\<exists>labels rows.
           predict m df = Inr labels \<and> 0 < length labels \<and>
           predict_proba m df = Inr rows \<and> 0 < length rows \<and> 1 < length (rows ! 0) \<and>
           r = [(''product_id'', opt_str pid),
                (''reorder_required'', PBool (labels ! 0 \<noteq> 0)),
                (''confidence'', PFloat (Max (set (rows ! 0)))),
                (''probability_reorder'', PFloat (rows ! 0 ! 1))]"
proof -
  obtain labels where l: "predict m df = Inr labels"
    using assms by (cases "predict m df") (simp_all add: make_entry_def)
  have l0: "0 < length labels"
  proof (rule ccontr)
    assume "\<not> 0 < length labels"
    with assms l show False by (simp add: make_entry_def getidx_def)
  qed
  then have gl: "getidx labels 0 = Inr (labels ! 0)" by (simp add: getidx_def)
  obtain rows where p: "predict_proba m df = Inr rows"
    using assms l gl by (cases "predict_proba m df") (simp_all add: make_entry_def)
  have r0: "0 < length rows"
  proof (rule ccontr)
    assume "\<not> 0 < length rows"
    with assms l gl p show False by (simp add: make_entry_def getidx_def)
  qed
  then have gr: "getidx rows 0 = Inr (rows ! 0)" by (simp add: getidx_def)
  have p1: "1 < length (rows ! 0)"
  proof (rule ccontr)
    assume "\<not> 1 < length (rows ! 0)"
    then have "getidx (rows ! 0) 1 = Inl IndexError" by (simp add: getidx_def)
    with assms l gl p gr show False
      by (cases "py_max (rows ! 0)") (simp_all add: make_entry_def)
  qed
  then have g1: "getidx (rows ! 0) 1 = Inr (rows ! 0 ! 1)" by (simp add: getidx_def)
  from p1 have "rows ! 0 \<noteq> []" by auto
  then have mx: "py_max (rows ! 0) = Inr (Max (set (rows ! 0)))" by (rule py_max_Max)
  from assms l gl p gr mx g1
  have "r = [(''product_id'', opt_str pid),
             (''reorder_required'', PBool (labels ! 0 \<noteq> 0)),
             (''confidence'', PFloat (Max (set (rows ! 0)))),
             (''probability_reorder'', PFloat (rows ! 0 ! 1))]"
    by (simp add: make_entry_def)
  with l l0 p r0 p1 show ?thesis by blast
qed

lemma loop_body_values:
  assumes "fst (loop_body m product) = Inr r"
  shows "\<exists>product' labels rows.
           fill_profit_margin product = Inr product' \<and>
           predict m (input_data product') = Inr labels \<and> 0 < length labels \<and>
           predict_proba m (input_data product') = Inr rows \<and>
           0 < length rows \<and> 1 < length (rows ! 0) \<and>
           r = [(''product_id'', opt_str (product_id product)),
                (''reorder_required'', PBool (labels ! 0 \<noteq> 0)),
                (''confidence'', PFloat (Max (set (rows ! 0)))),
                (''probability_reorder'', PFloat (rows ! 0 ! 1))]"
proof (cases "fill_profit_margin product")
  case (Inl e)
  with assms show ?thesis by (simp add: loop_body_def)
next
  case (Inr product')
  from fill_profit_margin_fields(1) [OF Inr]
  have pid: "product_id product' = product_id product" .
  from Inr assms have "make_entry m (product_id product') (input_data product') = Inr r"
    by (simp add: loop_body_def)
  from make_entry_values [OF this] obtain labels rows where
    "predict m (input_data product') = Inr labels" "0 < length labels"
    "predict_proba m (input_data product') = Inr rows" "0 < length rows"
    "1 < length (rows ! 0)"
    "r = [(''product_id'', opt_str (product_id product')),
          (''reorder_required'', PBool (labels ! 0 \<noteq> 0)),
          (''confidence'', PFloat (Max (set (rows ! 0)))),
          (''probability_reorder'', PFloat (rows ! 0 ! 1))]"
    by blast
  with Inr pid show ?thesis by auto
qed

lemma batch_loop_all_succeed:
  "\<forall>p\<in>set ps. \<exists>r. fst (loop_body m p) = Inr r \<Longrightarrow>
   \<exists>es. fst (batch_loop m ps rs) = Inr (rs @ es) \<and>
        map (\<lambda>p. fst (loop_body m p)) ps = map Inr es"
proof (induction ps arbitrary: rs)
  case Nil
  then show ?case by simp
next
  case (Cons a ps)
  from Cons.prems obtain r where r: "fst (loop_body m a) = Inr r" by auto
  from Cons.prems have "\<forall>p\<in>set ps. \<exists>r. fst (loop_body m p) = Inr r" by simp
  from Cons.IH [OF this, of "rs @ [r]"] obtain es
    where loop: "fst (batch_loop m ps (rs @ [r])) = Inr ((rs @ [r]) @ es)"
      and each: "map (\<lambda>p. fst (loop_body m p)) ps = map Inr es"
    by blast
  from r loop have "fst (batch_loop m (a # ps) rs) = Inr (rs @ (r # es))"
    by (simp add: batch_loop_Cons_fst del: batch_loop.simps)
  moreover from r each
  have "map (\<lambda>p. fst (loop_body m p)) (a # ps) = map Inr (r # es)"
    by simp
  ultimately show ?case by blast
qed

lemma stock_rule_loop_bodies:
  "fst (loop_body stock_rule_artifact sample_product) =
     Inr [(''product_id'', PStr ''P-1''), (''reorder_required'', PBool True),
          (''confidence'', PFloat (7 / 10)), (''probability_reorder'', PFloat (7 / 10))]"
  "fst (loop_body stock_rule_artifact tiny_cost_product) =
     Inr [(''product_id'', PNone), (''reorder_required'', PBool True),
          (''confidence'', PFloat (7 / 10)), (''probability_reorder'', PFloat (7 / 10))]"
  "fst (loop_body stock_rule_artifact stocked_product) =
     Inr [(''product_id'', PStr ''P-2''), (''reorder_required'', PBool False),
          (''confidence'', PFloat (9 / 10)), (''probability_reorder'', PFloat (1 / 10))]"
  by (simp_all add: loop_body_def fill_profit_margin_def py_truediv_def make_entry_def
      input_data_def getidx_def opt_str_def opt_float_def below_minimum_def
      stock_rule_artifact_def sample_product_def tiny_cost_product_def stocked_product_def)

text \<open>
  C6. With an artifact loaded, when the loop body fails for no product of the batch,
  batch_predict returns the dictionary with predictions, total_products and
  reorder_needed, and the route answers a schema-valid batch with it. predictions has one
  entry per product, in input order. Entry i is the loop body's result on product i and has
  exactly the keys product_id (the product's own, possibly None), reorder_required (the
  truth value of the first label), confidence (the largest probability of the first row)
  and probability_reorder (the second probability of that row); there is no
  probability_no_reorder. total_products is the number of products and reorder_needed the
  number of entries whose reorder_required is true.
\<close>

theorem batch_success_shape:
  assumes "model svc = Some m"
    and "\<forall>p\<in>set products. \<exists>r. fst (loop_body m p) = Inr r"
  shows "\<exists>results.
           fst (batch_predict svc products) =
             Inr (PDict
               [(''predictions'', PList (map PDict results)),
                (''total_products'', PInt (int (length products))),
                (''reorder_needed'', PInt (int (length
                   (filter (\<lambda>r. getitem r ''reorder_required'' = Inr (PBool True))
                      results))))]) \<and>
           (list_all ProductData_valid products \<longrightarrow>
              post_batch_predict svc products =
                Returned (PDict
                  [(''predictions'', PList (map PDict results)),
                   (''total_products'', PInt (int (length products))),
                   (''reorder_needed'', PInt (int (length
                      (filter (\<lambda>r. getitem r ''reorder_required'' = Inr (PBool True))
                         results))))])) \<and>
           length results = length products \<and>
           (\<forall>i<length products.
              fst (loop_body m (products ! i)) = Inr (results ! i) \<and>
              (\<exists>product' labels rows.
                 fill_profit_margin (products ! i) = Inr product' \<and>
                 predict m (input_data product') = Inr labels \<and> 0 < length labels \<and>
                 predict_proba m (input_data product') = Inr rows \<and>
                 0 < length rows \<and> 1 < length (rows ! 0) \<and>
                 results ! i =
                   [(''product_id'', opt_str (product_id (products ! i))),
                    (''reorder_required'', PBool (labels ! 0 \<noteq> 0)),
                    (''confidence'', PFloat (Max (set (rows ! 0)))),
                    (''probability_reorder'', PFloat (rows ! 0 ! 1))]))"
proof -
  from batch_loop_all_succeed [OF assms(2), of "[]"] obtain results
    where loop: "fst (batch_loop m products []) = Inr results"
      and each: "map (\<lambda>p. fst (loop_body m p)) products = map Inr results"
    by auto
  from each have len: "length results = length products"
    by (metis length_map)
  have item: "fst (loop_body m (products ! i)) = Inr (results ! i)" if "i < length products" for i
  proof -
    have "map (\<lambda>p. fst (loop_body m p)) products ! i = map Inr results ! i"
      using each by simp
    with that len show ?thesis by simp
  qed
  have entry: "\<exists>product' labels rows.
      fill_profit_margin (products ! i) = Inr product' \<and>
      predict m (input_data product') = Inr labels \<and> 0 < length labels \<and>
      predict_proba m (input_data product') = Inr rows \<and>
      0 < length rows \<and> 1 < length (rows ! 0) \<and>
      results ! i =
        [(''product_id'', opt_str (product_id (products ! i))),
         (''reorder_required'', PBool (labels ! 0 \<noteq> 0)),
         (''confidence'', PFloat (Max (set (rows ! 0)))),
         (''probability_reorder'', PFloat (rows ! 0 ! 1))]" if "i < length products" for i
    using loop_body_values [OF item [OF that]] .
  have "\<forall>r\<in>set results. \<exists>b. getitem r ''reorder_required'' = Inr (PBool b)"
  proof
    fix r assume "r \<in> set results"
    then obtain i where i: "i < length results" and r: "r = results ! i"
      by (auto simp: in_set_conv_nth)
    from loop_body_shape [OF item [of i]] i len obtain b c p x where "results ! i =
      [(''product_id'', x), (''reorder_required'', PBool b), (''confidence'', PFloat c),
       (''probability_reorder'', PFloat p)]"
      by auto
    with r show "\<exists>b. getitem r ''reorder_required'' = Inr (PBool b)"
      by (simp add: getitem_def)
  qed
  from reorder_count_entries [OF this]
  have count: "reorder_count results =
     Inr (int (length (filter (\<lambda>r. getitem r ''reorder_required'' = Inr (PBool True)) results)))" .
  from assms(1) loop count
  have reply: "fst (batch_predict svc products) =
             Inr (PDict
               [(''predictions'', PList (map PDict results)),
                (''total_products'', PInt (int (length products))),
                (''reorder_needed'', PInt (int (length
                   (filter (\<lambda>r. getitem r ''reorder_required'' = Inr (PBool True))
                      results))))])"
    by (simp add: batch_predict_fst)
  then have route: "list_all ProductData_valid products \<longrightarrow>
      post_batch_predict svc products =
        Returned (PDict
          [(''predictions'', PList (map PDict results)),
           (''total_products'', PInt (int (length products))),
           (''reorder_needed'', PInt (int (length
              (filter (\<lambda>r. getitem r ''reorder_required'' = Inr (PBool True))
                 results))))])"
    by (simp add: post_batch_predict_def)
  from reply route len item entry show ?thesis by blast
qed

theorem batch_success_shape_witness:
  "model stock_rule_service = Some stock_rule_artifact \<and>
   fst (loop_body stock_rule_artifact sample_product) =
     Inr [(''product_id'', PStr ''P-1''), (''reorder_required'', PBool True),
          (''confidence'', PFloat (7 / 10)), (''probability_reorder'', PFloat (7 / 10))] \<and>
   fst (loop_body stock_rule_artifact tiny_cost_product) =
     Inr [(''product_id'', PNone), (''reorder_required'', PBool True),
          (''confidence'', PFloat (7 / 10)), (''probability_reorder'', PFloat (7 / 10))] \<and>
   fst (loop_body stock_rule_artifact stocked_product) =
     Inr [(''product_id'', PStr ''P-2''), (''reorder_required'', PBool False),
          (''confidence'', PFloat (9 / 10)), (''probability_reorder'', PFloat (1 / 10))] \<and>
   fst (batch_predict stock_rule_service [sample_product, tiny_cost_product, stocked_product]) =
     Inr (PDict
       [(''predictions'', PList
           [PDict [(''product_id'', PStr ''P-1''), (''reorder_required'', PBool True),
                   (''confidence'', PFloat (7 / 10)), (''probability_reorder'', PFloat (7 / 10))],
            PDict [(''product_id'', PNone), (''reorder_required'', PBool True),
                   (''confidence'', PFloat (7 / 10)), (''probability_reorder'', PFloat (7 / 10))],
            PDict [(''product_id'', PStr ''P-2''), (''reorder_required'', PBool False),
                   (''confidence'', PFloat (9 / 10)),
                   (''probability_reorder'', PFloat (1 / 10))]]),
        (''total_products'', PInt 3),
        (''reorder_needed'', PInt 2)]) \<and>
   list_all ProductData_valid [sample_product, tiny_cost_product, stocked_product] \<and>
   post_batch_predict stock_rule_service [sample_product, tiny_cost_product, stocked_product] =
     Returned (PDict
       [(''predictions'', PList
           [PDict [(''product_id'', PStr ''P-1''), (''reorder_required'', PBool True),
                   (''confidence'', PFloat (7 / 10)), (''probability_reorder'', PFloat (7 / 10))],
            PDict [(''product_id'', PNone), (''reorder_required'', PBool True),
                   (''confidence'', PFloat (7 / 10)), (''probability_reorder'', PFloat (7 / 10))],
            PDict [(''product_id'', PStr ''P-2''), (''reorder_required'', PBool False),
                   (''confidence'', PFloat (9 / 10)),
                   (''probability_reorder'', PFloat (1 / 10))]]),
        (''total_products'', PInt 3),
        (''reorder_needed'', PInt 2)])"
proof -
  let ?ps = "[sample_product, tiny_cost_product, stocked_product]"
  let ?m = stock_rule_artifact
  have h1: "model stock_rule_service = Some ?m"
    by (simp add: stock_rule_service_def)
  have h2: "\<forall>p\<in>set ?ps. \<exists>r. fst (loop_body ?m p) = Inr r"
    by (simp add: stock_rule_loop_bodies)
  have h3: "list_all ProductData_valid ?ps"
    by (simp add: ProductData_valid_def sample_product_def tiny_cost_product_def
        stocked_product_def)
  from batch_success_shape [OF h1 h2] obtain results
    where reply: "fst (batch_predict stock_rule_service ?ps) =
             Inr (PDict
               [(''predictions'', PList (map PDict results)),
                (''total_products'', PInt (int (length ?ps))),
                (''reorder_needed'', PInt (int (length
                   (filter (\<lambda>r. getitem r ''reorder_required'' = Inr (PBool True))
                      results))))])"
      and route: "list_all ProductData_valid ?ps \<longrightarrow>
          post_batch_predict stock_rule_service ?ps =
            Returned (PDict
              [(''predictions'', PList (map PDict results)),
               (''total_products'', PInt (int (length ?ps))),
               (''reorder_needed'', PInt (int (length
                  (filter (\<lambda>r. getitem r ''reorder_required'' = Inr (PBool True))
                     results))))])"
      and len: "length results = length ?ps"
      and item: "\<forall>i<length ?ps. fst (loop_body ?m (?ps ! i)) = Inr (results ! i)"
    by blast
  from item [rule_format, of 0] have "fst (loop_body ?m (?ps ! 0)) = Inr (results ! 0)" by simp
  then have r0: "results ! 0 =
      [(''product_id'', PStr ''P-1''), (''reorder_required'', PBool True),
       (''confidence'', PFloat (7 / 10)), (''probability_reorder'', PFloat (7 / 10))]"
    by (simp add: stock_rule_loop_bodies)
  from item [rule_format, of 1] have "fst (loop_body ?m (?ps ! 1)) = Inr (results ! 1)" by simp
  then have r1: "results ! 1 =
      [(''product_id'', PNone), (''reorder_required'', PBool True),
       (''confidence'', PFloat (7 / 10)), (''probability_reorder'', PFloat (7 / 10))]"
    by (simp add: stock_rule_loop_bodies)
  from item [rule_format, of 2] have "fst (loop_body ?m (?ps ! 2)) = Inr (results ! 2)" by simp
  then have r2: "results ! 2 =
      [(''product_id'', PStr ''P-2''), (''reorder_required'', PBool False),
       (''confidence'', PFloat (9 / 10)), (''probability_reorder'', PFloat (1 / 10))]"
    by (simp add: stock_rule_loop_bodies)
  from len obtain a b c where abc: "results = [a, b, c]"
    by (auto simp: length_Suc_conv)
  from abc r0 r1 r2 have res: "results =
     [[(''product_id'', PStr ''P-1''), (''reorder_required'', PBool True),
       (''confidence'', PFloat (7 / 10)), (''probability_reorder'', PFloat (7 / 10))],
      [(''product_id'', PNone), (''reorder_required'', PBool True),
       (''confidence'', PFloat (7 / 10)), (''probability_reorder'', PFloat (7 / 10))],
      [(''product_id'', PStr ''P-2''), (''reorder_required'', PBool False),
       (''confidence'', PFloat (9 / 10)), (''probability_reorder'', PFloat (1 / 10))]]"
    by simp
  have final: "fst (batch_predict stock_rule_service ?ps) =
     Inr (PDict
       [(''predictions'', PList
           [PDict [(''product_id'', PStr ''P-1''), (''reorder_required'', PBool True),
                   (''confidence'', PFloat (7 / 10)), (''probability_reorder'', PFloat (7 / 10))],
            PDict [(''product_id'', PNone), (''reorder_required'', PBool True),
                   (''confidence'', PFloat (7 / 10)), (''probability_reorder'', PFloat (7 / 10))],
            PDict [(''product_id'', PStr ''P-2''), (''reorder_required'', PBool False),
                   (''confidence'', PFloat (9 / 10)),
                   (''probability_reorder'', PFloat (1 / 10))]]),
        (''total_products'', PInt 3),
        (''reorder_needed'', PInt 2)])"
    using reply unfolding res by (simp add: getitem_def)
  have answered: "post_batch_predict stock_rule_service ?ps =
     Returned (PDict
       [(''predictions'', PList
           [PDict [(''product_id'', PStr ''P-1''), (''reorder_required'', PBool True),
                   (''confidence'', PFloat (7 / 10)), (''probability_reorder'', PFloat (7 / 10))],
            PDict [(''product_id'', PNone), (''reorder_required'', PBool True),
                   (''confidence'', PFloat (7 / 10)), (''probability_reorder'', PFloat (7 / 10))],
            PDict [(''product_id'', PStr ''P-2''), (''reorder_required'', PBool False),
                   (''confidence'', PFloat (9 / 10)),
                   (''probability_reorder'', PFloat (1 / 10))]]),
        (''total_products'', PInt 3),
        (''reorder_needed'', PInt 2)])"
    using route h3 unfolding res by (simp add: getitem_def)
  from h1 stock_rule_loop_bodies h3 final answered show ?thesis by blast
qed

subsection \<open>Degraded mode and model information\<close>

text \<open>
  C7. With no artifact loaded, predict_reorder and batch_predict raise the 503
  HTTPException at once, whatever the request, and leave the request objects untouched
  (so do the routes, for every body that passes the schema), while health_check reports
  status "degraded" with model_loaded false and read_root returns its dictionary.
\<close>

theorem degraded_mode:
  assumes "model svc = None"
  shows "predict_reorder svc data =
           (Inl \<lparr>status_code = 503,
                 detail = Text ''Model not loaded. Please check server configuration.''\<rparr>, data) \<and>
         batch_predict svc products =
           (Inl \<lparr>status_code = 503, detail = Text ''Model not loaded''\<rparr>, products) \<and>
         (ProductData_valid data \<longrightarrow>
            post_predict svc data =
              Raised \<lparr>status_code = 503,
                      detail = Text ''Model not loaded. Please check server configuration.''\<rparr>) \<and>
         (list_all ProductData_valid products \<longrightarrow>
            post_batch_predict svc products =
              Raised \<lparr>status_code = 503, detail = Text ''Model not loaded''\<rparr>) \<and>
         health_check svc =
           PDict [(''status'', PStr ''degraded''), (''model_loaded'', PBool False),
                  (''model_path'', PStr (MODEL_PATH svc))] \<and>
         read_root svc =
           PDict [(''service'', PStr ''Stock Prediction ML Service''),
                  (''status'', PStr ''running''), (''model_loaded'', PBool False),
                  (''version'', PStr ''1.0.0'')]"
  using assms
  by (simp add: predict_reorder_def batch_predict_def post_predict_def post_batch_predict_def
      health_check_def read_root_def)

theorem degraded_mode_witness:
  "model degraded_service = None \<and>
   ProductData_valid sample_product \<and>
   list_all ProductData_valid [sample_product, tiny_cost_product] \<and>
   post_predict degraded_service sample_product =
     Raised \<lparr>status_code = 503,
             detail = Text ''Model not loaded. Please check server configuration.''\<rparr> \<and>
   post_batch_predict degraded_service [sample_product, tiny_cost_product] =
     Raised \<lparr>status_code = 503, detail = Text ''Model not loaded''\<rparr> \<and>
   health_check degraded_service =
     PDict [(''status'', PStr ''degraded''), (''model_loaded'', PBool False),
            (''model_path'', PStr ''stock_reorder_model.pkl'')]"
proof -
  have h1: "model degraded_service = None"
    by (simp add: degraded_service_def)
  have h2: "ProductData_valid sample_product"
    by (simp add: ProductData_valid_def sample_product_def)
  have h3: "list_all ProductData_valid [sample_product, tiny_cost_product]"
    by (simp add: ProductData_valid_def sample_product_def tiny_cost_product_def)
  have p: "MODEL_PATH degraded_service = ''stock_reorder_model.pkl''"
    by (simp add: degraded_service_def)
  from degraded_mode [OF h1, of sample_product "[sample_product, tiny_cost_product]"] h1 h2 h3
  show ?thesis unfolding p by blast
qed

text \<open>
  C9. With an artifact loaded, get_model_info returns the artifact's type string together
  with the fixed feature-name lists and the fixed performance numbers, whatever the
  artifact is; with none loaded it raises the 503 HTTPException.
\<close>

theorem model_info_contract:
  "(model svc = Some m \<longrightarrow>
      get_model_info svc =
        Inr (PDict
          [(''model_type'', PStr (type_str m)),
           (''features'', PDict
              [(''numerical'', PList
                  [PStr ''cost_price'', PStr ''selling_price'', PStr ''Profit margin'',
                   PStr ''reorder_frequency'', PStr ''current_stock'',
                   PStr ''minimum_stock_level'']),
               (''categorical'', PList [PStr ''category'', PStr ''brand'', PStr ''supplier''])]),
           (''performance'', PDict
              [(''accuracy'', PFloat (99 / 100)), (''precision'', PFloat (98 / 100)),
               (''recall'', PFloat (97 / 100)), (''f1_score'', PFloat (97 / 100))])])) \<and>
   (model svc = None \<longrightarrow>
      get_model_info svc = Inl \<lparr>status_code = 503, detail = Text ''Model not loaded''\<rparr>)"
  by (simp add: get_model_info_def)

theorem model_info_contract_witness:
  "model sample_service = Some sample_artifact \<and>
   model degraded_service = None \<and>
   get_model_info degraded_service =
     Inl \<lparr>status_code = 503, detail = Text ''Model not loaded''\<rparr> \<and>
   get_model_info sample_service =
     Inr (PDict
       [(''model_type'', PStr ''<class 'sklearn.pipeline.Pipeline'>''),
        (''features'', PDict
           [(''numerical'', PList
               [PStr ''cost_price'', PStr ''selling_price'', PStr ''Profit margin'',
                PStr ''reorder_frequency'', PStr ''current_stock'',
                PStr ''minimum_stock_level'']),
            (''categorical'', PList [PStr ''category'', PStr ''brand'', PStr ''supplier''])]),
        (''performance'', PDict
           [(''accuracy'', PFloat (99 / 100)), (''precision'', PFloat (98 / 100)),
            (''recall'', PFloat (97 / 100)), (''f1_score'', PFloat (97 / 100))])])"
proof -
  have h1: "model sample_service = Some sample_artifact"
    by (simp add: sample_service_def)
  have h2: "model degraded_service = None"
    by (simp add: degraded_service_def)
  have t: "type_str sample_artifact = ''<class 'sklearn.pipeline.Pipeline'>''"
    by (simp add: sample_artifact_def)
  from model_info_contract [of sample_service sample_artifact] h1
    model_info_contract [of degraded_service sample_artifact] h2
  show ?thesis unfolding t by blast
qed

subsection \<open>The empty batch\<close>

text \<open>
  C10. With an artifact loaded, batch_predict on the empty list raises nothing and returns
  exactly the dictionary with predictions [], total_products 0 and reorder_needed 0.
\<close>

theorem batch_predict_empty:
  "model svc = Some m \<Longrightarrow>
   batch_predict svc [] =
     (Inr (PDict [(''predictions'', PList []), (''total_products'', PInt 0),
                  (''reorder_needed'', PInt 0)]), [])"
  by (simp add: batch_predict_def)

theorem batch_predict_empty_witness:
  "model sample_service = Some sample_artifact \<and>
   batch_predict sample_service [] =
     (Inr (PDict [(''predictions'', PList []), (''total_products'', PInt 0),
                  (''reorder_needed'', PInt 0)]), [])"
  using batch_predict_empty [of sample_service sample_artifact]
  by (simp add: sample_service_def)

end
